theory Spec2Isabelle
  imports Complex_Main "HOL-Library.Word"
begin

unbundle bit_operations_syntax

section \<open>Gradient mask engine: the embedding\<close>

text \<open>
  The repository implements one gradient mask on three back ends: a web view
  (\<^verbatim>\<open>AnimatedGradientMaskView.web.tsx\<close>, \<^verbatim>\<open>GradientMaskView.web.tsx\<close>), an Android view
  (\<^verbatim>\<open>GradientMaskView\<close> in Kotlin, present in two variants: the one that keeps a base
  bitmap and applies a colour matrix at draw time, and an older one that bakes the
  opacity into the bitmap) and an iOS view (Swift, a gradient layer under a solid layer).

  Numbers. Packed colours are 32-bit words. The floating-point values of the source
  (JavaScript numbers, Kotlin \<^verbatim>\<open>Float\<close>, Swift \<^verbatim>\<open>CGFloat\<close>) are modelled as exact reals:
  the rounding error of IEEE arithmetic is outside this model, and \<^verbatim>\<open>NaN\<close> appears only
  where the source can produce it from a division (\<open>jsnum\<close>). The model and the
  program agree wherever every rounding step of the program decides as the exact value
  does, and each theorem below that evaluates a blend does so at such an input (a dyadic
  opacity and an alpha whose blend is computed exactly). They differ where a
  floating-point result falls just below a tie that the exact value reaches: the web
  blend of alpha 12 at opacity 1/2 is 133 in double arithmetic and 134 exactly. For
  that reason no theorem below states the rounded result of the web blend, or of the
  blend of the older Android view, for all opacities.
\<close>

subsection \<open>Numeric primitives of the host languages\<close>

text \<open>JavaScript's \<^verbatim>\<open>Math.round\<close>: the nearest integer, ties towards plus infinity.\<close>

definition math_round :: "real \<Rightarrow> int" where
  "math_round x = \<lfloor>x + 1 / 2\<rfloor>"

text \<open>Kotlin's \<^verbatim>\<open>Float.toInt()\<close>: truncation towards zero, saturating at the \<^verbatim>\<open>Int\<close> range.\<close>

definition toInt :: "real \<Rightarrow> int" where
  "toInt x =
     (if x \<ge> 2147483647 then 2147483647
      else if x \<le> - 2147483648 then - 2147483648
      else if 0 \<le> x then \<lfloor>x\<rfloor> else \<lceil>x\<rceil>)"

text \<open>Kotlin's \<^verbatim>\<open>coerceIn(lo, hi)\<close>.\<close>

definition coerceIn :: "real \<Rightarrow> real \<Rightarrow> real \<Rightarrow> real" where
  "coerceIn lo hi x = (if x < lo then lo else if x > hi then hi else x)"

text \<open>
  A JavaScript number that results from a division: \<^verbatim>\<open>0 / 0\<close> is \<^verbatim>\<open>NaN\<close> and
  \<^verbatim>\<open>x / 0\<close> for positive \<^verbatim>\<open>x\<close> is \<^verbatim>\<open>Infinity\<close> (HOL's \<open>x / 0 = 0\<close> would hide both).
\<close>

datatype jsnum = Num real | NaN | Infinity

definition js_div :: "nat \<Rightarrow> int \<Rightarrow> jsnum" where
  "js_div i d =
     (if d = 0 then (if i = 0 then NaN else Infinity)
      else Num (real i / real_of_int d))"

fun js_times :: "jsnum \<Rightarrow> real \<Rightarrow> jsnum" where
  "js_times (Num x) k = Num (x * k)"
| "js_times NaN k = NaN"
| "js_times Infinity k = Infinity"

subsection \<open>The colour codec (web)\<close>

text \<open>
  \<^verbatim>\<open>const intValue = color >>> 0\<close>: the number read as an unsigned 32-bit integer.
\<close>

definition toUint32 :: "int \<Rightarrow> 32 word" where
  "toUint32 color = word_of_int color"

text \<open>
  The four channel reads of \<^verbatim>\<open>colorToRgba\<close> and \<^verbatim>\<open>adjustColorsForOpacity\<close>:
  \<^verbatim>\<open>(intValue >> 24) & 0xff\<close>, \<^verbatim>\<open>(intValue >> 16) & 0xff\<close>, \<^verbatim>\<open>(intValue >> 8) & 0xff\<close>,
  \<^verbatim>\<open>intValue & 0xff\<close>. JavaScript's \<^verbatim>\<open>>>\<close> is the sign-propagating shift on 32 bits.
\<close>

definition channelA :: "32 word \<Rightarrow> 32 word" where
  "channelA intValue = signed_drop_bit 24 intValue AND 0xff"

definition channelR :: "32 word \<Rightarrow> 32 word" where
  "channelR intValue = signed_drop_bit 16 intValue AND 0xff"

definition channelG :: "32 word \<Rightarrow> 32 word" where
  "channelG intValue = signed_drop_bit 8 intValue AND 0xff"

definition channelB :: "32 word \<Rightarrow> 32 word" where
  "channelB intValue = intValue AND 0xff"

text \<open>The unpacking as one function: the components in the order (a, r, g, b).\<close>

definition decode :: "32 word \<Rightarrow> 32 word \<times> 32 word \<times> 32 word \<times> 32 word" where
  "decode intValue = (channelA intValue, channelR intValue, channelG intValue, channelB intValue)"

text \<open>
  The repacking of \<^verbatim>\<open>adjustColorsForOpacity\<close>:
  \<^verbatim>\<open>((alpha << 24) | (r << 16) | (g << 8) | b) >>> 0\<close>.
\<close>

fun encode :: "32 word \<times> 32 word \<times> 32 word \<times> 32 word \<Rightarrow> 32 word" where
  "encode (a, r, g, b) = push_bit 24 a OR push_bit 16 r OR push_bit 8 g OR b"

text \<open>
  \<^verbatim>\<open>colorToRgba\<close>. The result string \<^verbatim>\<open>rgba(r, g, b, a)\<close> is modelled by its four
  components; \<^verbatim>\<open>null\<close> and \<^verbatim>\<open>undefined\<close> are \<open>None\<close>.
\<close>

definition colorToRgba :: "int option \<Rightarrow> nat \<times> nat \<times> nat \<times> real" where
  "colorToRgba color =
     (case color of
        None \<Rightarrow> (0, 0, 0, 0)
      | Some c \<Rightarrow>
          (let intValue = toUint32 c;
               a = real (unat (channelA intValue)) / 255;
               r = unat (channelR intValue);
               g = unat (channelG intValue);
               b = unat (channelB intValue)
           in (r, g, b, a)))"

subsection \<open>The gradient string and the opacity adjustment (web)\<close>

text \<open>\<^verbatim>\<open>getGradientDirection\<close>; an absent direction is \<open>None\<close>.\<close>

definition getGradientDirection :: "string option \<Rightarrow> string" where
  "getGradientDirection direction =
     (if direction = Some ''top'' then ''to bottom''
      else if direction = Some ''bottom'' then ''to top''
      else if direction = Some ''left'' then ''to right''
      else if direction = Some ''right'' then ''to left''
      else ''to bottom'')"

text \<open>
  The location of stop \<open>index\<close> in \<^verbatim>\<open>buildGradientString\<close>, in per cent:
  \<^verbatim>\<open>locations[index] !== undefined ? locations[index] * 100
     : (index / (colors.length - 1)) * 100\<close>.
  Reading a JavaScript array past its end gives \<^verbatim>\<open>undefined\<close>.
\<close>

definition stopLocation :: "nat \<Rightarrow> real list \<Rightarrow> nat \<Rightarrow> jsnum" where
  "stopLocation n locations index =
     (if index < length locations then Num (locations ! index * 100)
      else js_times (js_div index (int n - 1)) 100)"

text \<open>
  \<^verbatim>\<open>buildGradientString\<close>: the CSS direction and the colour stops, in the order of
  \<^verbatim>\<open>colors\<close>. The string \<^verbatim>\<open>linear-gradient(dir, stop, ...)\<close> is modelled by its parts.
\<close>

definition buildGradientString ::
  "int option list \<Rightarrow> real list \<Rightarrow> string option
     \<Rightarrow> string \<times> ((nat \<times> nat \<times> nat \<times> real) \<times> jsnum) list" where
  "buildGradientString colors locations direction =
     (getGradientDirection direction,
      map (\<lambda>(index, color). (colorToRgba color, stopLocation (length colors) locations index))
        (zip [0 ..< length colors] colors))"

text \<open>
  The body of the last \<^verbatim>\<open>colors.map\<close> of \<^verbatim>\<open>adjustColorsForOpacity\<close>, for a colour that
  is not null, in exact arithmetic (see the remark on numbers above: in doubles the
  product \<^verbatim>\<open>adjustedAlpha * 255\<close> can fall just below a tie).
\<close>

definition adjustColor :: "real \<Rightarrow> int \<Rightarrow> int" where
  "adjustColor maskOpacity color =
     (let intValue = toUint32 color;
          a = real (unat (channelA intValue)) / 255;
          r = channelR intValue;
          g = channelG intValue;
          b = channelB intValue;
          adjustedAlpha = a + (1 - a) * (1 - maskOpacity)
      in uint (encode (word_of_int (math_round (adjustedAlpha * 255)), r, g, b)))"

definition adjustColorsForOpacity :: "int option list \<Rightarrow> real \<Rightarrow> int option list" where
  "adjustColorsForOpacity colors maskOpacity =
     (if maskOpacity \<ge> 1 then colors
      else if maskOpacity \<le> 0 then map (\<lambda>_. Some 0xff000000) colors
      else map (\<lambda>color. case color of None \<Rightarrow> None
                                     | Some c \<Rightarrow> Some (adjustColor maskOpacity c)) colors)"

text \<open>
  The \<^verbatim>\<open>maskStyle\<close> memo of both web components: \<open>None\<close> is the empty style object
  (no mask image), \<open>Some\<close> carries the gradient that becomes the mask image.
\<close>

definition maskStyle ::
  "int option list \<Rightarrow> real list \<Rightarrow> string option \<Rightarrow> real
     \<Rightarrow> (string \<times> ((nat \<times> nat \<times> nat \<times> real) \<times> jsnum) list) option" where
  "maskStyle colors locations direction currentOpacity =
     (if currentOpacity \<le> 0 then None
      else Some (buildGradientString (adjustColorsForOpacity colors currentOpacity)
                   locations direction))"

subsection \<open>Android: platform colour helpers and the mask bitmap\<close>

text \<open>
  \<^verbatim>\<open>android.graphics.Color.alpha\<close>, \<^verbatim>\<open>Color.argb\<close> and \<^verbatim>\<open>Color.WHITE\<close>, as the platform
  documents them (\<^verbatim>\<open>color >>> 24\<close>; \<^verbatim>\<open>(a << 24) | (r << 16) | (g << 8) | b\<close>; \<^verbatim>\<open>0xFFFFFFFF\<close>).
\<close>

definition Color_alpha :: "32 word \<Rightarrow> int" where
  "Color_alpha color = uint (drop_bit 24 color)"

definition Color_argb :: "int \<Rightarrow> int \<Rightarrow> int \<Rightarrow> int \<Rightarrow> 32 word" where
  "Color_argb a r g b =
     push_bit 24 (word_of_int a) OR push_bit 16 (word_of_int r)
       OR push_bit 8 (word_of_int g) OR word_of_int b"

definition Color_WHITE :: "32 word" where
  "Color_WHITE = 0xFFFFFFFF"

text \<open>
  The mask bitmap, kept as the description of what was drawn into it: either
  \<^verbatim>\<open>drawColor(Color.WHITE)\<close> on a bitmap of the given width and height, or a rectangle over
  the whole bitmap painted with \<^verbatim>\<open>LinearGradient(startX, startY, endX, endY, colors,
  locations, CLAMP)\<close>. \<open>Gradient\<close> records the arguments of that constructor call;
  which arguments the platform's constructor accepts is not part of the sources and is
  not modelled, so nothing below is stated about a gradient of fewer than two colours.
\<close>

datatype bitmap =
    SolidWhite int int
  | Gradient int int "real \<times> real \<times> real \<times> real" "32 word list" "real list"

text \<open>
  What \<^verbatim>\<open>dispatchDraw\<close> does with the canvas: draw the children alone, or draw them into
  an off-screen layer and multiply by the bitmap's alpha (\<^verbatim>\<open>DST_IN\<close>), the bitmap being
  passed through the colour filter when there is one.
\<close>

datatype drawn =
    DrawChildren
  | DrawMasked bitmap "real list option"

subsection \<open>Android: the view with a base bitmap and a colour matrix\<close>

text \<open>
  The fields of \<^verbatim>\<open>GradientMaskView\<close>. \<open>width\<close> and \<open>height\<close> are the view's size, which
  the framework sets. \<open>rebuilds\<close> is not a field of the source: it counts the bitmaps
  \<^verbatim>\<open>updateBaseMaskBitmap\<close> has created, so that rebuilding can be stated.
\<close>

record GradientMaskView =
  colors :: "32 word list option"
  locations :: "real list option"
  direction :: string
  maskOpacity :: real
  baseMaskBitmap :: "bitmap option"
  baseBitmapInvalidated :: bool
  width :: int
  height :: int
  rebuilds :: nat

definition setColors :: "32 word list option \<Rightarrow> GradientMaskView \<Rightarrow> GradientMaskView" where
  "setColors colorArray v = v\<lparr>colors := colorArray, baseBitmapInvalidated := True\<rparr>"

definition setLocations :: "real list option \<Rightarrow> GradientMaskView \<Rightarrow> GradientMaskView" where
  "setLocations locationArray v = v\<lparr>locations := locationArray, baseBitmapInvalidated := True\<rparr>"

definition setDirection :: "string \<Rightarrow> GradientMaskView \<Rightarrow> GradientMaskView" where
  "setDirection dir v = v\<lparr>direction := dir, baseBitmapInvalidated := True\<rparr>"

definition setMaskOpacity :: "real \<Rightarrow> GradientMaskView \<Rightarrow> GradientMaskView" where
  "setMaskOpacity opacity v =
     (let newOpacity = coerceIn 0 1 opacity
      in if newOpacity \<noteq> maskOpacity v then v\<lparr>maskOpacity := newOpacity\<rparr> else v)"

definition getGradientCoordinates :: "GradientMaskView \<Rightarrow> real \<times> real \<times> real \<times> real" where
  "getGradientCoordinates v =
     (if direction v = ''top'' then (0, 0, 0, real_of_int (height v))
      else if direction v = ''bottom'' then (0, real_of_int (height v), 0, 0)
      else if direction v = ''left'' then (0, 0, real_of_int (width v), 0)
      else if direction v = ''right'' then (real_of_int (width v), 0, 0, 0)
      else (0, 0, 0, real_of_int (height v)))"

definition updateBaseMaskBitmap :: "GradientMaskView \<Rightarrow> GradientMaskView" where
  "updateBaseMaskBitmap v =
     (if width v \<le> 0 \<or> height v \<le> 0 then v
      else
        (let created = v\<lparr>rebuilds := rebuilds v + 1\<rparr>;
             white = created\<lparr>baseMaskBitmap := Some (SolidWhite (width v) (height v))\<rparr>
         in case colors v of
              None \<Rightarrow> white
            | Some currentColors \<Rightarrow>
               (case locations v of
                  None \<Rightarrow> white
                | Some currentLocations \<Rightarrow>
                    if length currentColors \<noteq> length currentLocations \<or> currentColors = []
                    then white
                    else
                      (let maskColors =
                             map (\<lambda>originalColor.
                                    Color_argb (Color_alpha originalColor) 255 255 255)
                               currentColors
                       in created\<lparr>baseMaskBitmap :=
                            Some (Gradient (width v) (height v) (getGradientCoordinates v)
                                    maskColors currentLocations)\<rparr>))))"

text \<open>
  \<^verbatim>\<open>onSizeChanged\<close> and \<^verbatim>\<open>onLayout\<close>. The framework has stored the new size in the view
  before it calls \<^verbatim>\<open>onSizeChanged(w, h, oldw, oldh)\<close>.
\<close>

definition onSizeChanged :: "int \<Rightarrow> int \<Rightarrow> GradientMaskView \<Rightarrow> GradientMaskView" where
  "onSizeChanged w h v =
     (let sized = v\<lparr>width := w, height := h\<rparr>
      in if w > 0 \<and> h > 0
         then (updateBaseMaskBitmap sized)\<lparr>baseBitmapInvalidated := False\<rparr>
         else sized)"

definition onLayout :: "bool \<Rightarrow> GradientMaskView \<Rightarrow> GradientMaskView" where
  "onLayout changed v = (if changed then v\<lparr>baseBitmapInvalidated := True\<rparr> else v)"

text \<open>
  The colour matrix \<^verbatim>\<open>dispatchDraw\<close> sets when \<^verbatim>\<open>maskOpacity < 1f\<close>, row by row
  (R, G, B, A), and the alpha a colour matrix gives a pixel: the platform computes
  \<^verbatim>\<open>A' = m[15]*R + m[16]*G + m[17]*B + m[18]*A + m[19]\<close>, as the source's own comment
  says for its alpha row (\<^verbatim>\<open>originalAlpha * scale + translate\<close>).
\<close>

definition colorMatrixFor :: "real \<Rightarrow> real list" where
  "colorMatrixFor m =
     [1, 0, 0, 0, 0,
      0, 1, 0, 0, 0,
      0, 0, 1, 0, 0,
      0, 0, 0, m, 255 * (1 - m)]"

definition colorMatrixAlpha :: "real list \<Rightarrow> real \<times> real \<times> real \<times> real \<Rightarrow> real" where
  "colorMatrixAlpha m px =
     (case px of (a, r, g, b) \<Rightarrow>
        m ! 15 * r + m ! 16 * g + m ! 17 * b + m ! 18 * a + m ! 19)"

definition dispatchDraw :: "GradientMaskView \<Rightarrow> GradientMaskView \<times> drawn" where
  "dispatchDraw v =
     (if width v \<le> 0 \<or> height v \<le> 0 then (v, DrawChildren)
      else
        (let v1 = (if baseBitmapInvalidated v
                   then (updateBaseMaskBitmap v)\<lparr>baseBitmapInvalidated := False\<rparr>
                   else v)
         in case baseMaskBitmap v1 of
              None \<Rightarrow> (v1, DrawChildren)
            | Some bm \<Rightarrow>
                if maskOpacity v1 \<le> 0 then (v1, DrawChildren)
                else (v1, DrawMasked bm
                            (if maskOpacity v1 < 1 then Some (colorMatrixFor (maskOpacity v1))
                             else None))))"

definition onDetachedFromWindow :: "GradientMaskView \<Rightarrow> GradientMaskView" where
  "onDetachedFromWindow v = v\<lparr>baseMaskBitmap := None\<rparr>"

text \<open>The components the base bitmap is built from: stops, locations, direction, size.\<close>

definition cacheKey ::
  "GradientMaskView \<Rightarrow> 32 word list option \<times> real list option \<times> string \<times> int \<times> int" where
  "cacheKey v = (colors v, locations v, direction v, width v, height v)"

subsection \<open>Android: the older view, which bakes the opacity into the bitmap\<close>

text \<open>
  The second \<^verbatim>\<open>GradientMaskView\<close> class of the Kotlin file. Its names carry the prefix
  \<open>legacy\<close> here; the field \<open>legacy_rebuilds\<close> counts the bitmaps created, as above.
\<close>

record LegacyMaskView =
  legacy_colors :: "32 word list option"
  legacy_locations :: "real list option"
  legacy_direction :: string
  legacy_maskOpacity :: real
  maskBitmap :: "bitmap option"
  maskBitmapInvalidated :: bool
  legacy_width :: int
  legacy_height :: int
  legacy_rebuilds :: nat

definition legacy_setColors :: "32 word list option \<Rightarrow> LegacyMaskView \<Rightarrow> LegacyMaskView" where
  "legacy_setColors colorArray v = v\<lparr>legacy_colors := colorArray, maskBitmapInvalidated := True\<rparr>"

definition legacy_setLocations :: "real list option \<Rightarrow> LegacyMaskView \<Rightarrow> LegacyMaskView" where
  "legacy_setLocations locationArray v =
     v\<lparr>legacy_locations := locationArray, maskBitmapInvalidated := True\<rparr>"

definition legacy_setDirection :: "string \<Rightarrow> LegacyMaskView \<Rightarrow> LegacyMaskView" where
  "legacy_setDirection dir v = v\<lparr>legacy_direction := dir, maskBitmapInvalidated := True\<rparr>"

definition legacy_setMaskOpacity :: "real \<Rightarrow> LegacyMaskView \<Rightarrow> LegacyMaskView" where
  "legacy_setMaskOpacity opacity v =
     v\<lparr>legacy_maskOpacity := coerceIn 0 1 opacity, maskBitmapInvalidated := True\<rparr>"

definition legacy_getGradientCoordinates :: "LegacyMaskView \<Rightarrow> real \<times> real \<times> real \<times> real" where
  "legacy_getGradientCoordinates v =
     (if legacy_direction v = ''top'' then (0, 0, 0, real_of_int (legacy_height v))
      else if legacy_direction v = ''bottom'' then (0, real_of_int (legacy_height v), 0, 0)
      else if legacy_direction v = ''left'' then (0, 0, real_of_int (legacy_width v), 0)
      else if legacy_direction v = ''right'' then (real_of_int (legacy_width v), 0, 0, 0)
      else (0, 0, 0, real_of_int (legacy_height v)))"

text \<open>
  \<^verbatim>\<open>val blendedAlpha = (255 + (originalAlpha - 255) * maskOpacity).toInt()\<close>
\<close>

definition blendedAlpha :: "int \<Rightarrow> real \<Rightarrow> int" where
  "blendedAlpha originalAlpha m = toInt (255 + real_of_int (originalAlpha - 255) * m)"

definition updateMaskBitmap :: "LegacyMaskView \<Rightarrow> LegacyMaskView" where
  "updateMaskBitmap v =
     (if legacy_width v \<le> 0 \<or> legacy_height v \<le> 0 then v
      else
        (let created = v\<lparr>legacy_rebuilds := legacy_rebuilds v + 1\<rparr>;
             white = created\<lparr>maskBitmap := Some (SolidWhite (legacy_width v) (legacy_height v))\<rparr>
         in case legacy_colors v of
              None \<Rightarrow> white
            | Some currentColors \<Rightarrow>
               (case legacy_locations v of
                  None \<Rightarrow> white
                | Some currentLocations \<Rightarrow>
                    if length currentColors \<noteq> length currentLocations \<or> currentColors = []
                    then white
                    else
                      (let effectiveColors =
                             map (\<lambda>originalColor.
                                    Color_argb
                                      (blendedAlpha (Color_alpha originalColor)
                                         (legacy_maskOpacity v))
                                      255 255 255)
                               currentColors
                       in created\<lparr>maskBitmap :=
                            Some (Gradient (legacy_width v) (legacy_height v)
                                    (legacy_getGradientCoordinates v)
                                    effectiveColors currentLocations)\<rparr>))))"

definition legacy_onSizeChanged :: "int \<Rightarrow> int \<Rightarrow> LegacyMaskView \<Rightarrow> LegacyMaskView" where
  "legacy_onSizeChanged w h v =
     (let sized = v\<lparr>legacy_width := w, legacy_height := h\<rparr>
      in if w > 0 \<and> h > 0
         then (updateMaskBitmap sized)\<lparr>maskBitmapInvalidated := False\<rparr>
         else sized)"

definition legacy_onLayout :: "bool \<Rightarrow> LegacyMaskView \<Rightarrow> LegacyMaskView" where
  "legacy_onLayout changed v = (if changed then v\<lparr>maskBitmapInvalidated := True\<rparr> else v)"

definition legacy_dispatchDraw :: "LegacyMaskView \<Rightarrow> LegacyMaskView \<times> drawn" where
  "legacy_dispatchDraw v =
     (if legacy_width v \<le> 0 \<or> legacy_height v \<le> 0 then (v, DrawChildren)
      else
        (let v1 = (if maskBitmapInvalidated v
                   then (updateMaskBitmap v)\<lparr>maskBitmapInvalidated := False\<rparr>
                   else v)
         in case maskBitmap v1 of
              None \<Rightarrow> (v1, DrawChildren)
            | Some bm \<Rightarrow>
                if legacy_maskOpacity v1 \<le> 0 then (v1, DrawChildren)
                else (v1, DrawMasked bm None)))"

subsection \<open>iOS: the gradient layer under a solid layer\<close>

text \<open>
  \<^verbatim>\<open>updateGradientDirection\<close>: the start and end point of the gradient layer, in the
  unit coordinate space of the layer.
\<close>

definition updateGradientDirection :: "string \<Rightarrow> (real \<times> real) \<times> (real \<times> real)" where
  "updateGradientDirection dir =
     (if dir = ''top'' then ((1 / 2, 0), (1 / 2, 1))
      else if dir = ''bottom'' then ((1 / 2, 1), (1 / 2, 0))
      else if dir = ''left'' then ((0, 1 / 2), (1, 1 / 2))
      else if dir = ''right'' then ((1, 1 / 2), (0, 1 / 2))
      else ((1 / 2, 0), (1 / 2, 1)))"

text \<open>
  A gradient layer's unit points in the coordinates of a layer of width \<open>w\<close> and height
  \<open>h\<close> (\<^verbatim>\<open>gradientMaskLayer.frame = bounds\<close>).
\<close>

definition unitToBounds ::
  "real \<Rightarrow> real \<Rightarrow> (real \<times> real) \<times> (real \<times> real) \<Rightarrow> real \<times> real \<times> real \<times> real" where
  "unitToBounds w h pts =
     (case pts of ((sx, sy), (ex, ey)) \<Rightarrow> (sx * w, sy * h, ex * w, ey * h))"

text \<open>
  \<^verbatim>\<open>setMaskOpacity\<close> followed by \<^verbatim>\<open>updateMaskOpacity\<close>: the opacity given to the solid
  black layer, \<^verbatim>\<open>Float(1.0 - _maskOpacity)\<close>. The source does not clamp the opacity.
\<close>

definition updateMaskOpacity :: "real \<Rightarrow> real" where
  "updateMaskOpacity m = 1 - m"

text \<open>
  The composite mask of \<^verbatim>\<open>updateGradientMask\<close>: the gradient layer, and above it the
  opaque black solid layer at the opacity set above. Core Animation keeps a layer's
  opacity within [0, 1] and composes a sublayer over the ones below it source-over:
  with alphas on the scale 0..255, a layer of alpha 255 at opacity \<open>k\<close> over alpha \<open>g\<close>
  gives \<open>255 * k + g * (1 - k)\<close>.
\<close>

definition sourceOver :: "real \<Rightarrow> real \<Rightarrow> real" where
  "sourceOver opacity g = 255 * opacity + g * (1 - opacity)"

definition compositeMaskAlpha :: "real \<Rightarrow> real \<Rightarrow> real" where
  "compositeMaskAlpha g m = sourceOver (coerceIn 0 1 (updateMaskOpacity m)) g"

text \<open>
  The state of the iOS view that the mask depends on. \<open>ios_colors\<close>, \<open>ios_locations\<close>,
  \<open>ios_direction\<close> and \<open>ios_maskOpacity\<close> are the fields \<^verbatim>\<open>_colors\<close>, \<^verbatim>\<open>_locations\<close>,
  \<^verbatim>\<open>_direction\<close> and \<^verbatim>\<open>_maskOpacity\<close>; a colour is its (red, green, blue, alpha)
  components. The gradient layer and the solid layer are objects the view keeps for its
  lifetime; \<open>layer_mask\<close> is \<^verbatim>\<open>layer.mask\<close>: \<open>None\<close> while no mask is attached, else the
  sublayers of the composite mask, bottom first. The layers' frames follow the view's
  bounds and are left out.
\<close>

datatype sublayer = GradientMaskLayer | SolidMaskLayer

record IosMaskView =
  ios_colors :: "(real \<times> real \<times> real \<times> real) list"
  ios_locations :: "real list"
  ios_direction :: string
  ios_maskOpacity :: real
  gradientLayer_colors :: "(real \<times> real \<times> real \<times> real) list"
  gradientLayer_locations :: "real list"
  gradientLayer_points :: "(real \<times> real) \<times> (real \<times> real)"
  solidLayer_opacity :: real
  layer_mask :: "sublayer list option"

text \<open>
  The view after \<^verbatim>\<open>init\<close> and \<^verbatim>\<open>setupView\<close>: clear to black over the locations 0 and
  1, direction top, mask opacity 1, the solid layer at opacity 0, no mask attached.
\<close>

definition newIosView :: IosMaskView where
  "newIosView =
     \<lparr>ios_colors = [(0, 0, 0, 0), (0, 0, 0, 1)], ios_locations = [0, 1],
      ios_direction = ''top'', ios_maskOpacity = 1,
      gradientLayer_colors = [(0, 0, 0, 0), (0, 0, 0, 1)], gradientLayer_locations = [0, 1],
      gradientLayer_points = updateGradientDirection ''top'',
      solidLayer_opacity = 0, layer_mask = None\<rparr>"

text \<open>
  \<^verbatim>\<open>updateGradientMask\<close>: the gradient layer takes the current colours, locations and
  direction, and a new composite layer holding the gradient layer and the solid layer
  becomes the view's mask. \<^verbatim>\<open>layoutSubviews\<close> calls it.
\<close>

definition ios_updateGradientMask :: "IosMaskView \<Rightarrow> IosMaskView" where
  "ios_updateGradientMask v =
     v\<lparr>gradientLayer_colors := ios_colors v,
       gradientLayer_locations := ios_locations v,
       gradientLayer_points := updateGradientDirection (ios_direction v),
       layer_mask := Some [GradientMaskLayer, SolidMaskLayer]\<rparr>"

definition ios_layoutSubviews :: "IosMaskView \<Rightarrow> IosMaskView" where
  "ios_layoutSubviews v = ios_updateGradientMask v"

text \<open>
  \<^verbatim>\<open>setMaskOpacity\<close>: the value is stored as it is given, and \<^verbatim>\<open>updateMaskOpacity\<close> sets
  the opacity of the solid layer. Nothing else is touched: there is no test of the
  opacity and no write to \<^verbatim>\<open>layer.mask\<close>.
\<close>

definition ios_setMaskOpacity :: "real \<Rightarrow> IosMaskView \<Rightarrow> IosMaskView" where
  "ios_setMaskOpacity opacity v =
     v\<lparr>ios_maskOpacity := opacity, solidLayer_opacity := updateMaskOpacity opacity\<rparr>"

subsection \<open>The gradient a bitmap description stands for\<close>

text \<open>
  Modelled from the spec: the rasterisation of the platform's linear gradient shader,
  which is not repository code. The spec's words (section 4.3): the coordinate of a
  position is its projection onto the start-to-end axis, normalised to [0, 1]; the
  alpha there is interpolated linearly between the two stops whose locations bracket
  the coordinate, clamped to the first and the last stop at the ends; stops are taken
  in authored order.
\<close>

definition axisParam :: "real \<times> real \<times> real \<times> real \<Rightarrow> real \<times> real \<Rightarrow> real" where
  "axisParam coords p =
     (case coords of (sx, sy, ex, ey) \<Rightarrow>
        (case p of (x, y) \<Rightarrow>
           ((x - sx) * (ex - sx) + (y - sy) * (ey - sy))
             / ((ex - sx) * (ex - sx) + (ey - sy) * (ey - sy))))"



subsection \<open>The blend as the specification words it\<close>

text \<open>
  The specification's \<open>blend\<close>: \<open>round(baseAlpha * intensity + 255 * (1 - intensity))\<close>,
  clamped to [0, 255]. It is compared with the three blends of the source below.
\<close>

definition spec_blend :: "int \<Rightarrow> real \<Rightarrow> int" where
  "spec_blend baseAlpha intensity =
     max 0 (min 255 (math_round (real_of_int baseAlpha * intensity + 255 * (1 - intensity))))"

subsection \<open>The direction mapping as the specification words it\<close>

text \<open>
  The specification's \<open>resolve\<close> (section 4.2): top is (w/2, 0) to (w/2, h), bottom is
  (w/2, h) to (w/2, 0), left is (0, h/2) to (w, h/2), right is (w, h/2) to (0, h/2), and
  any other direction is the top mapping. It is compared with the two resolvers of the
  source below.
\<close>

definition spec_resolve :: "string \<Rightarrow> real \<Rightarrow> real \<Rightarrow> real \<times> real \<times> real \<times> real" where
  "spec_resolve dir w h =
     (if dir = ''top'' then (w / 2, 0, w / 2, h)
      else if dir = ''bottom'' then (w / 2, h, w / 2, 0)
      else if dir = ''left'' then (0, h / 2, w, h / 2)
      else if dir = ''right'' then (w, h / 2, 0, h / 2)
      else (w / 2, 0, w / 2, h))"

subsection \<open>Concrete views\<close>

text \<open>
  The view as its field initialisers leave it, before any layout (size 0 by 0); the same
  for the older view.
\<close>

definition newView :: GradientMaskView where
  "newView =
     \<lparr>colors = None, locations = None, direction = ''top'', maskOpacity = 1,
      baseMaskBitmap = None, baseBitmapInvalidated = True, width = 0, height = 0,
      rebuilds = 0\<rparr>"

definition newLegacyView :: LegacyMaskView where
  "newLegacyView =
     \<lparr>legacy_colors = None, legacy_locations = None, legacy_direction = ''top'',
      legacy_maskOpacity = 1, maskBitmap = None, maskBitmapInvalidated = True,
      legacy_width = 0, legacy_height = 0, legacy_rebuilds = 0\<rparr>"

text \<open>
  A view that has received its props and its first layout: the given colours and
  locations, the direction top and the opacity 1 are set, then the framework lays the
  view out at the given size (\<^verbatim>\<open>onSizeChanged\<close>, then \<^verbatim>\<open>onLayout\<close> with
  \<^verbatim>\<open>changed = true\<close>).
\<close>

definition mountedView ::
  "32 word list option \<Rightarrow> real list option \<Rightarrow> int \<Rightarrow> int \<Rightarrow> GradientMaskView" where
  "mountedView cs ls w h =
     onLayout True
       (onSizeChanged w h
          (setMaskOpacity 1 (setDirection ''top'' (setLocations ls (setColors cs newView)))))"

definition mountedLegacyView ::
  "32 word list option \<Rightarrow> real list option \<Rightarrow> int \<Rightarrow> int \<Rightarrow> LegacyMaskView" where
  "mountedLegacyView cs ls w h =
     legacy_onLayout True
       (legacy_onSizeChanged w h
          (legacy_setMaskOpacity 1
             (legacy_setDirection ''top''
                (legacy_setLocations ls (legacy_setColors cs newLegacyView)))))"

text \<open>Transparent to opaque over the locations 0 and 1, on 10 by 20.\<close>

definition exampleView :: GradientMaskView where
  "exampleView = mountedView (Some [0x00000000, 0xFF000000]) (Some [0, 1]) 10 20"

definition exampleLegacyView :: LegacyMaskView where
  "exampleLegacyView = mountedLegacyView (Some [0x00000000, 0xFF000000]) (Some [0, 1]) 10 20"


text \<open>Two stops and the one location 0, on 10 by 10.\<close>

definition shortLocationsView :: GradientMaskView where
  "shortLocationsView = mountedView (Some [0x00000000, 0xFF000000]) (Some [0]) 10 10"

section \<open>The colour codec\<close>

lemma mask8: "(0xff :: 32 word) = mask 8"
  by (simp add: mask_eq_exp_minus_1)

lemma bit_channelA: "bit (channelA v) n \<longleftrightarrow> n < 8 \<and> bit v (n + 24)"
  by (auto simp add: channelA_def mask8 bit_simps add.commute)

lemma bit_channelR: "bit (channelR v) n \<longleftrightarrow> n < 8 \<and> bit v (n + 16)"
  by (auto simp add: channelR_def mask8 bit_simps add.commute)

lemma bit_channelG: "bit (channelG v) n \<longleftrightarrow> n < 8 \<and> bit v (n + 8)"
  by (auto simp add: channelG_def mask8 bit_simps add.commute)

lemma bit_channelB: "bit (channelB v) n \<longleftrightarrow> n < 8 \<and> bit v n"
  by (auto simp add: channelB_def mask8 bit_simps)

text \<open>
  Claim C9. Unpacking any 32-bit value into its (a, r, g, b) components and packing
  them again gives the value back.
\<close>

theorem C9_encode_decode_roundtrip: "encode (decode x) = x"
proof (rule bit_word_eqI)
  fix n
  assume n: "n < LENGTH(32)"
  consider "n < 8" | "8 \<le> n" "n < 16" | "16 \<le> n" "n < 24" | "24 \<le> n" "n < 32"
    using n by fastforce
  then show "bit (encode (decode x)) n = bit x n"
    by cases
      (auto simp add: decode_def bit_simps bit_channelA bit_channelR bit_channelG bit_channelB)
qed

text \<open>The platform helpers of Android: an alpha is a byte, and \<^verbatim>\<open>Color.argb\<close> keeps it.\<close>

lemma Color_alpha_range: "0 \<le> Color_alpha c \<and> Color_alpha c \<le> 255"
proof -
  have "uint c < 2 ^ 32"
    using uint_bounded [of c] by simp
  then have "uint c div 2 ^ 24 < 2 ^ 8"
    by simp
  then have "Color_alpha c \<le> 255"
    by (simp add: Color_alpha_def drop_bit_eq_div uint_div_distrib)
  moreover have "0 \<le> Color_alpha c"
    by (simp add: Color_alpha_def)
  ultimately show ?thesis by simp
qed

lemma white_is_mask: "(255 :: 32 word) = mask 8" "word_of_int 255 = (mask 8 :: 32 word)"
  by (simp_all add: mask_eq_exp_minus_1)

lemma bit_of_byte:
  fixes a :: int
  assumes "0 \<le> a" and "a \<le> 255" and "bit a n"
  shows "n < 8"
proof (rule ccontr)
  assume far: "\<not> n < 8"
  have "take_bit 8 a = a"
    using assms by (simp add: take_bit_int_eq_self)
  then have "bit (take_bit 8 a) n"
    using assms by simp
  then show False
    using far by (simp add: bit_take_bit_iff)
qed

lemma drop_bit_Color_argb:
  assumes "0 \<le> a" and "a \<le> 255"
  shows "drop_bit 24 (Color_argb a 255 255 255) = (word_of_int a :: 32 word)"
proof (rule bit_word_eqI)
  fix n
  assume "n < LENGTH(32)"
  then show "bit (drop_bit 24 (Color_argb a 255 255 255)) n = bit (word_of_int a :: 32 word) n"
    using bit_of_byte [OF assms, of n]
    by (auto simp add: Color_argb_def white_is_mask bit_simps)
qed

lemma Color_alpha_argb:
  assumes "0 \<le> a" and "a \<le> 255"
  shows "Color_alpha (Color_argb a 255 255 255) = a"
  using assms by (simp add: Color_alpha_def drop_bit_Color_argb uint_word_of_int take_bit_int_eq_self)

lemma Color_alpha_numeral:
  "Color_alpha 0x80000000 = 128" "Color_alpha 0 = 0" "Color_alpha 0xFF000000 = 255"
  "Color_alpha Color_WHITE = 255"
  by (simp_all add: Color_alpha_def Color_WHITE_def drop_bit_eq_div)

lemma Color_argb_numeral:
  "Color_argb 0 255 255 255 = 0x00FFFFFF" "Color_argb 255 255 255 255 = 0xFFFFFFFF"
  "Color_argb 127 255 255 255 = 0x7FFFFFFF" "Color_argb 128 255 255 255 = 0x80FFFFFF"
  by (simp_all add: Color_argb_def push_bit_eq_mult)

section \<open>The intensity blend\<close>

lemma coerceIn_nonpos: "x \<le> 0 \<Longrightarrow> coerceIn 0 1 x = 0"
  by (simp add: coerceIn_def)

text \<open>
  The two ends on the web: at opacity 1 (or more) the colours are returned as they are,
  at opacity 0 (or less) every entry becomes \<^verbatim>\<open>0xff000000\<close>, whose alpha is 255.
\<close>

lemma web_blend_ends:
  "adjustColorsForOpacity cs 1 = cs"
  "adjustColorsForOpacity cs 0 = map (\<lambda>_. Some 0xff000000) cs"
  "uint (channelA (toUint32 0xff000000)) = 255"
  by (simp_all add: adjustColorsForOpacity_def toUint32_def channelA_def)

text \<open>
  The two ends of the blend of the older Android view: for an alpha in 0..255, opacity 1
  gives the alpha and opacity 0 gives 255.
\<close>

theorem legacy_blend_ends:
  assumes "0 \<le> a" and "a \<le> 255"
  shows "blendedAlpha a 1 = a \<and> blendedAlpha a 0 = 255"
  using assms by (simp add: blendedAlpha_def toInt_def)

theorem legacy_blend_ends_witness:
  "blendedAlpha 128 1 = 128 \<and> blendedAlpha 128 0 = 255"
  by (rule legacy_blend_ends) simp_all

lemma blendedAlpha_half: "blendedAlpha 0 (1 / 2) = 127" "blendedAlpha 255 (1 / 2) = 255"
  by (simp_all add: blendedAlpha_def toInt_def)

text \<open>
  Claim C1. The blend of a stop's alpha is the rounded affine value
  \<open>round(baseAlpha * intensity + 255 * (1 - intensity))\<close>. The blend of the older
  Android view is not: it truncates, so at alpha 0 and intensity 1/2 it gives 127 where
  the rounded value, and the web blend of the same colour, is 128.
\<close>

theorem C1_legacy_blend_truncates:
  "blendedAlpha 0 (1 / 2) = 127
   \<and> spec_blend 0 (1 / 2) = 128
   \<and> uint (channelA (toUint32 (adjustColor (1 / 2) 0))) = 128"
  by (simp add: blendedAlpha_def toInt_def spec_blend_def math_round_def adjustColor_def
      toUint32_def channelA_def channelR_def channelG_def channelB_def)

section \<open>The base bitmap and its invalidation\<close>

lemma updateBaseMaskBitmap_frame:
  "colors (updateBaseMaskBitmap v) = colors v"
  "locations (updateBaseMaskBitmap v) = locations v"
  "direction (updateBaseMaskBitmap v) = direction v"
  "maskOpacity (updateBaseMaskBitmap v) = maskOpacity v"
  "width (updateBaseMaskBitmap v) = width v"
  "height (updateBaseMaskBitmap v) = height v"
  "baseBitmapInvalidated (updateBaseMaskBitmap v) = baseBitmapInvalidated v"
  by (simp_all add: updateBaseMaskBitmap_def Let_def split: option.splits)

lemma updateBaseMaskBitmap_rebuilds:
  "0 < width v \<Longrightarrow> 0 < height v \<Longrightarrow> rebuilds (updateBaseMaskBitmap v) = rebuilds v + 1"
  by (simp add: updateBaseMaskBitmap_def Let_def split: option.splits)

lemma dispatchDraw_state:
  "fst (dispatchDraw v) =
     (if width v \<le> 0 \<or> height v \<le> 0 then v
      else if baseBitmapInvalidated v
           then (updateBaseMaskBitmap v)\<lparr>baseBitmapInvalidated := False\<rparr> else v)"
  by (simp add: dispatchDraw_def Let_def split: option.splits)

lemma dispatchDraw_rebuilds:
  "0 < width v \<Longrightarrow> 0 < height v \<Longrightarrow>
   rebuilds (fst (dispatchDraw v))
     = (if baseBitmapInvalidated v then rebuilds v + 1 else rebuilds v)"
  by (simp add: dispatchDraw_state updateBaseMaskBitmap_rebuilds)

lemma dispatchDraw_frame:
  "width (fst (dispatchDraw v)) = width v"
  "height (fst (dispatchDraw v)) = height v"
  "colors (fst (dispatchDraw v)) = colors v"
  "locations (fst (dispatchDraw v)) = locations v"
  "direction (fst (dispatchDraw v)) = direction v"
  "maskOpacity (fst (dispatchDraw v)) = maskOpacity v"
  by (simp_all add: dispatchDraw_state updateBaseMaskBitmap_frame)

lemma dispatchDraw_clears_flag:
  "0 < width v \<Longrightarrow> 0 < height v \<Longrightarrow> \<not> baseBitmapInvalidated (fst (dispatchDraw v))"
  by (simp add: dispatchDraw_state)

lemma dispatchDraw_valid: "\<not> baseBitmapInvalidated v \<Longrightarrow> fst (dispatchDraw v) = v"
  by (simp add: dispatchDraw_state)

lemma onSizeChanged_frame:
  "colors (onSizeChanged w h v) = colors v"
  "locations (onSizeChanged w h v) = locations v"
  "direction (onSizeChanged w h v) = direction v"
  "maskOpacity (onSizeChanged w h v) = maskOpacity v"
  "width (onSizeChanged w h v) = w"
  "height (onSizeChanged w h v) = h"
  by (simp_all add: onSizeChanged_def Let_def updateBaseMaskBitmap_frame)

text \<open>The fields of a mounted view, and the two concrete views in full.\<close>

lemma mountedView_fields:
  "colors (mountedView cs ls w h) = cs"
  "locations (mountedView cs ls w h) = ls"
  "direction (mountedView cs ls w h) = ''top''"
  "maskOpacity (mountedView cs ls w h) = 1"
  "width (mountedView cs ls w h) = w"
  "height (mountedView cs ls w h) = h"
  "baseBitmapInvalidated (mountedView cs ls w h)"
  by (simp_all add: mountedView_def onLayout_def onSizeChanged_frame setMaskOpacity_def
      setDirection_def setLocations_def setColors_def newView_def coerceIn_def Let_def)

lemma exampleView_state:
  "exampleView =
     \<lparr>colors = Some [0x00000000, 0xFF000000], locations = Some [0, 1], direction = ''top'',
      maskOpacity = 1,
      baseMaskBitmap = Some (Gradient 10 20 (0, 0, 0, 20) [0x00FFFFFF, 0xFFFFFFFF] [0, 1]),
      baseBitmapInvalidated = True, width = 10, height = 20, rebuilds = 1\<rparr>"
  by (simp add: exampleView_def mountedView_def onLayout_def onSizeChanged_def
      updateBaseMaskBitmap_def getGradientCoordinates_def setMaskOpacity_def setDirection_def
      setLocations_def setColors_def newView_def coerceIn_def Let_def
      Color_alpha_numeral Color_argb_numeral)

lemma exampleLegacyView_state:
  "exampleLegacyView =
     \<lparr>legacy_colors = Some [0x00000000, 0xFF000000], legacy_locations = Some [0, 1],
      legacy_direction = ''top'', legacy_maskOpacity = 1,
      maskBitmap = Some (Gradient 10 20 (0, 0, 0, 20) [0x00FFFFFF, 0xFFFFFFFF] [0, 1]),
      maskBitmapInvalidated = True, legacy_width = 10, legacy_height = 20,
      legacy_rebuilds = 1\<rparr>"
  by (simp add: exampleLegacyView_def mountedLegacyView_def legacy_onLayout_def
      legacy_onSizeChanged_def updateMaskBitmap_def legacy_getGradientCoordinates_def
      legacy_setMaskOpacity_def legacy_setDirection_def legacy_setLocations_def
      legacy_setColors_def newLegacyView_def coerceIn_def blendedAlpha_def toInt_def Let_def
      Color_alpha_numeral Color_argb_numeral)

lemma exampleView_size: "width exampleView = 10" "height exampleView = 20"
  by (simp_all add: exampleView_def mountedView_fields)

lemma setMaskOpacity_frame:
  "baseMaskBitmap (setMaskOpacity x v) = baseMaskBitmap v"
  "baseBitmapInvalidated (setMaskOpacity x v) = baseBitmapInvalidated v"
  "rebuilds (setMaskOpacity x v) = rebuilds v"
  "cacheKey (setMaskOpacity x v) = cacheKey v"
  "width (setMaskOpacity x v) = width v"
  "height (setMaskOpacity x v) = height v"
  by (simp_all add: setMaskOpacity_def cacheKey_def Let_def)

lemma maskOpacity_setMaskOpacity: "maskOpacity (setMaskOpacity x v) = coerceIn 0 1 x"
  by (simp add: setMaskOpacity_def Let_def)

text \<open>
  The view with the colour matrix. Once the base bitmap is valid, any sequence of
  opacity updates, each followed by a draw, leaves the base bitmap, its invalidation
  flag, the number of bitmaps created and the key components as they were.
\<close>

theorem intensity_updates_keep_base_bitmap:
  assumes "\<not> baseBitmapInvalidated v"
  shows "baseMaskBitmap (fold (\<lambda>x s. fst (dispatchDraw (setMaskOpacity x s))) xs v)
           = baseMaskBitmap v
       \<and> \<not> baseBitmapInvalidated (fold (\<lambda>x s. fst (dispatchDraw (setMaskOpacity x s))) xs v)
       \<and> rebuilds (fold (\<lambda>x s. fst (dispatchDraw (setMaskOpacity x s))) xs v) = rebuilds v
       \<and> cacheKey (fold (\<lambda>x s. fst (dispatchDraw (setMaskOpacity x s))) xs v) = cacheKey v"
  using assms
proof (induction xs arbitrary: v)
  case Nil
  then show ?case by simp
next
  case (Cons x xs)
  let ?s = "fst (dispatchDraw (setMaskOpacity x v))"
  have eq: "?s = setMaskOpacity x v"
    using Cons.prems by (simp add: dispatchDraw_valid setMaskOpacity_frame)
  have "\<not> baseBitmapInvalidated ?s"
    using Cons.prems by (simp add: eq setMaskOpacity_frame)
  from Cons.IH [OF this] show ?case
    by (simp add: eq setMaskOpacity_frame)
qed

theorem intensity_updates_keep_base_bitmap_witness:
  "rebuilds (fold (\<lambda>x s. fst (dispatchDraw (setMaskOpacity x s))) [1 / 2, 0, 1 / 4]
              (fst (dispatchDraw exampleView))) = 2
   \<and> baseMaskBitmap (fold (\<lambda>x s. fst (dispatchDraw (setMaskOpacity x s))) [1 / 2, 0, 1 / 4]
              (fst (dispatchDraw exampleView)))
       = Some (Gradient 10 20 (0, 0, 0, 20) [0x00FFFFFF, 0xFFFFFFFF] [0, 1])"
proof -
  have valid: "\<not> baseBitmapInvalidated (fst (dispatchDraw exampleView))"
    by (rule dispatchDraw_clears_flag) (simp_all add: exampleView_size)
  have built: "fst (dispatchDraw exampleView) =
      exampleView\<lparr>baseMaskBitmap :=
                    Some (Gradient 10 20 (0, 0, 0, 20) [0x00FFFFFF, 0xFFFFFFFF] [0, 1]),
                  baseBitmapInvalidated := False, rebuilds := 2\<rparr>"
    by (simp add: dispatchDraw_def exampleView_state updateBaseMaskBitmap_def
        getGradientCoordinates_def Color_alpha_numeral Color_argb_numeral Let_def)
  from intensity_updates_keep_base_bitmap [OF valid, of "[1 / 2, 0, 1 / 4]"]
  show ?thesis by (simp add: built)
qed

text \<open>
  Claim C2. Setting the intensity never recomputes the gradient bitmap and leaves its
  invalidation state alone. The view with the colour matrix does so (above). The older
  view does not: its \<^verbatim>\<open>setMaskOpacity\<close> marks the bitmap invalid, and the next draw
  creates a new bitmap from the stops. Both views below are mounted with the same props
  and drawn once, which leaves each with two bitmaps created and a valid bitmap; after an
  opacity update to 1/2 and a draw the older view has created a third bitmap, with the
  stops blended anew, and the view with the colour matrix still two.
\<close>

theorem C2_legacy_opacity_update_rebuilds:
  "legacy_rebuilds (fst (legacy_dispatchDraw exampleLegacyView)) = 2
   \<and> \<not> maskBitmapInvalidated (fst (legacy_dispatchDraw exampleLegacyView))
   \<and> maskBitmapInvalidated
       (legacy_setMaskOpacity (1 / 2) (fst (legacy_dispatchDraw exampleLegacyView)))
   \<and> legacy_rebuilds
       (fst (legacy_dispatchDraw
          (legacy_setMaskOpacity (1 / 2) (fst (legacy_dispatchDraw exampleLegacyView))))) = 3
   \<and> maskBitmap
       (fst (legacy_dispatchDraw
          (legacy_setMaskOpacity (1 / 2) (fst (legacy_dispatchDraw exampleLegacyView)))))
       = Some (Gradient 10 20 (0, 0, 0, 20) [0x7FFFFFFF, 0xFFFFFFFF] [0, 1])
   \<and> rebuilds (fst (dispatchDraw exampleView)) = 2
   \<and> rebuilds (fst (dispatchDraw (setMaskOpacity (1 / 2) (fst (dispatchDraw exampleView))))) = 2"
proof -
  have first: "fst (legacy_dispatchDraw exampleLegacyView) =
      exampleLegacyView\<lparr>maskBitmap :=
                          Some (Gradient 10 20 (0, 0, 0, 20) [0x00FFFFFF, 0xFFFFFFFF] [0, 1]),
                        maskBitmapInvalidated := False, legacy_rebuilds := 2\<rparr>"
    by (simp add: legacy_dispatchDraw_def exampleLegacyView_state updateMaskBitmap_def
        legacy_getGradientCoordinates_def blendedAlpha_def toInt_def Let_def
        Color_alpha_numeral Color_argb_numeral)
  have second: "fst (legacy_dispatchDraw
                       (legacy_setMaskOpacity (1 / 2) (fst (legacy_dispatchDraw exampleLegacyView))))
      = exampleLegacyView\<lparr>legacy_maskOpacity := 1 / 2,
           maskBitmap := Some (Gradient 10 20 (0, 0, 0, 20) [0x7FFFFFFF, 0xFFFFFFFF] [0, 1]),
           maskBitmapInvalidated := False, legacy_rebuilds := 3\<rparr>"
    unfolding first
    by (simp add: legacy_dispatchDraw_def legacy_setMaskOpacity_def exampleLegacyView_state
        updateMaskBitmap_def legacy_getGradientCoordinates_def coerceIn_def Let_def
        Color_alpha_numeral blendedAlpha_half Color_argb_numeral)
  have flag: "maskBitmapInvalidated
       (legacy_setMaskOpacity (1 / 2) (fst (legacy_dispatchDraw exampleLegacyView)))"
    by (simp add: legacy_setMaskOpacity_def)
  have size: "0 < width (fst (dispatchDraw exampleView))" "0 < height (fst (dispatchDraw exampleView))"
    by (simp_all add: dispatchDraw_frame exampleView_size)
  have valid: "\<not> baseBitmapInvalidated (fst (dispatchDraw exampleView))"
    by (rule dispatchDraw_clears_flag) (simp_all add: exampleView_size)
  have drawn: "rebuilds (fst (dispatchDraw exampleView)) = 2"
    by (simp add: dispatchDraw_rebuilds exampleView_size) (simp add: exampleView_state)
  have new: "rebuilds (fst (dispatchDraw (setMaskOpacity (1 / 2) (fst (dispatchDraw exampleView))))) = 2"
    using valid drawn by (simp add: dispatchDraw_valid setMaskOpacity_frame)
  from first second flag drawn new show ?thesis by simp
qed

text \<open>
  Claim C4. The claim reads: the base bitmap is rebuilt iff the key (stops, locations,
  direction, width, height) differs by value from the stored one. The view stores no
  key and compares nothing: every setter marks the bitmap invalid, whatever value it is
  given. Setting the colours the view already has leaves the key equal and still makes
  the next draw build a new bitmap.
\<close>

theorem C4_same_colors_rebuild:
  "\<not> ((rebuilds (fst (dispatchDraw (setColors (colors (fst (dispatchDraw exampleView)))
                                        (fst (dispatchDraw exampleView)))))
          \<noteq> rebuilds (fst (dispatchDraw exampleView)))
        \<longleftrightarrow> (cacheKey (setColors (colors (fst (dispatchDraw exampleView)))
                                (fst (dispatchDraw exampleView)))
              \<noteq> cacheKey (fst (dispatchDraw exampleView))))"
proof -
  let ?d = "fst (dispatchDraw exampleView)"
  have size: "0 < width ?d" "0 < height ?d"
    by (simp_all add: dispatchDraw_frame exampleView_size)
  have "rebuilds (fst (dispatchDraw (setColors (colors ?d) ?d))) = rebuilds ?d + 1"
    using size by (simp add: dispatchDraw_rebuilds setColors_def)
  moreover have "cacheKey (setColors (colors ?d) ?d) = cacheKey ?d"
    by (simp add: cacheKey_def setColors_def)
  ultimately show ?thesis by simp
qed

text \<open>
  Claim C4, as the code has it. On a view of positive size a draw builds a new bitmap
  exactly when the bitmap is marked invalid, and then exactly one; a second draw right
  after a draw builds none; and after a draw, one call of \<^verbatim>\<open>setColors\<close>,
  \<^verbatim>\<open>setLocations\<close> or \<^verbatim>\<open>setDirection\<close> (with any value) makes the next draw build
  exactly one.
\<close>

theorem C4_rebuild_follows_invalidation_flag:
  assumes "0 < width v" and "0 < height v"
  shows "rebuilds (fst (dispatchDraw v))
           = (if baseBitmapInvalidated v then rebuilds v + 1 else rebuilds v)
       \<and> rebuilds (fst (dispatchDraw (fst (dispatchDraw v)))) = rebuilds (fst (dispatchDraw v))
       \<and> rebuilds (fst (dispatchDraw (setColors c (fst (dispatchDraw v)))))
           = rebuilds (fst (dispatchDraw v)) + 1
       \<and> rebuilds (fst (dispatchDraw (setLocations l (fst (dispatchDraw v)))))
           = rebuilds (fst (dispatchDraw v)) + 1
       \<and> rebuilds (fst (dispatchDraw (setDirection d (fst (dispatchDraw v)))))
           = rebuilds (fst (dispatchDraw v)) + 1"
proof -
  let ?d = "fst (dispatchDraw v)"
  have size: "0 < width ?d" "0 < height ?d"
    using assms by (simp_all add: dispatchDraw_frame)
  have clean: "\<not> baseBitmapInvalidated ?d"
    using assms by (rule dispatchDraw_clears_flag)
  have first: "rebuilds ?d = (if baseBitmapInvalidated v then rebuilds v + 1 else rebuilds v)"
    using assms by (rule dispatchDraw_rebuilds)
  have again: "rebuilds (fst (dispatchDraw ?d)) = rebuilds ?d"
    using size clean by (simp add: dispatchDraw_rebuilds)
  have sc: "rebuilds (fst (dispatchDraw (setColors c ?d))) = rebuilds ?d + 1"
    using size by (simp add: dispatchDraw_rebuilds setColors_def)
  have sl: "rebuilds (fst (dispatchDraw (setLocations l ?d))) = rebuilds ?d + 1"
    using size by (simp add: dispatchDraw_rebuilds setLocations_def)
  have sd: "rebuilds (fst (dispatchDraw (setDirection d ?d))) = rebuilds ?d + 1"
    using size by (simp add: dispatchDraw_rebuilds setDirection_def)
  from first again sc sl sd show ?thesis by simp
qed

theorem C4_rebuild_follows_invalidation_flag_witness:
  "rebuilds (fst (dispatchDraw exampleView)) = 2
   \<and> rebuilds (fst (dispatchDraw (fst (dispatchDraw exampleView)))) = 2
   \<and> rebuilds (fst (dispatchDraw (setDirection ''left'' (fst (dispatchDraw exampleView))))) = 3"
proof -
  have size: "0 < width exampleView" "0 < height exampleView"
    by (simp_all add: exampleView_size)
  from C4_rebuild_follows_invalidation_flag [OF size, where d = "''left''"]
  show ?thesis by (simp add: exampleView_state)
qed

text \<open>
  A change of size goes through \<^verbatim>\<open>onSizeChanged\<close>, which builds the bitmap at once.
  When the framework then reports a changed layout, the bitmap is marked invalid again
  and the next draw builds it a second time.
\<close>

lemma resize_then_layout_then_draw:
  assumes "0 < w" and "0 < h"
  shows "rebuilds (onSizeChanged w h v) = rebuilds v + 1"
    and "rebuilds (fst (dispatchDraw (onLayout True (onSizeChanged w h v)))) = rebuilds v + 2"
proof -
  let ?s = "onSizeChanged w h v"
  have s: "width ?s = w" "height ?s = h" "rebuilds ?s = rebuilds v + 1"
    using assms
    by (simp_all add: onSizeChanged_def Let_def updateBaseMaskBitmap_frame
        updateBaseMaskBitmap_rebuilds)
  show "rebuilds ?s = rebuilds v + 1" by (rule s)
  have "rebuilds (fst (dispatchDraw (onLayout True ?s))) = rebuilds (onLayout True ?s) + 1"
    using assms s by (simp add: dispatchDraw_rebuilds onLayout_def)
  then show "rebuilds (fst (dispatchDraw (onLayout True ?s))) = rebuilds v + 2"
    using s by (simp add: onLayout_def)
qed

section \<open>The compositor at intensity zero\<close>

lemma dispatchDraw_nonpos: "maskOpacity v \<le> 0 \<Longrightarrow> snd (dispatchDraw v) = DrawChildren"
  by (simp add: dispatchDraw_def updateBaseMaskBitmap_def Let_def split: option.splits)

lemma legacy_dispatchDraw_nonpos:
  "legacy_maskOpacity v \<le> 0 \<Longrightarrow> snd (legacy_dispatchDraw v) = DrawChildren"
  by (simp add: legacy_dispatchDraw_def updateMaskBitmap_def Let_def split: option.splits)

text \<open>
  Claim C3. The claim reads: for every intensity that is zero or negative the
  compositor short-circuits, and no mask is applied. The iOS view has no such branch:
  \<^verbatim>\<open>setMaskOpacity\<close> never looks at the value and never detaches the mask. After a
  layout and \<^verbatim>\<open>setMaskOpacity(0)\<close> the composite mask, gradient layer and solid layer,
  is still the view's mask.
\<close>

theorem C3_ios_mask_stays_attached:
  "layer_mask (ios_setMaskOpacity 0 (ios_layoutSubviews newIosView))
     = Some [GradientMaskLayer, SolidMaskLayer]
   \<and> layer_mask (ios_setMaskOpacity 0 (ios_layoutSubviews newIosView)) \<noteq> None"
  by (simp add: ios_setMaskOpacity_def ios_layoutSubviews_def ios_updateGradientMask_def)

text \<open>
  Claim C3, as the code has it. For every view state, stops, locations, direction and
  every intensity that is zero or negative: once the intensity has been set, both
  Android views draw their children alone (no off-screen layer, no bitmap), and the web
  style is the empty style (no mask image). On iOS nothing is skipped:
  \<^verbatim>\<open>setMaskOpacity\<close> leaves the view's mask as it was and sets the opacity of the solid
  black layer to 1 minus the intensity, which is at least 1; with the opacity kept
  within [0, 1] and the solid layer composed over the gradient layer, as Core Animation
  does, the mask is then opaque (alpha 255) whatever the gradient's alpha.
\<close>

theorem C3_nonpositive_intensity:
  assumes "intensity \<le> 0"
  shows "snd (dispatchDraw (setMaskOpacity intensity v)) = DrawChildren
       \<and> snd (legacy_dispatchDraw (legacy_setMaskOpacity intensity lv)) = DrawChildren
       \<and> maskStyle cs ls dir intensity = None
       \<and> layer_mask (ios_setMaskOpacity intensity iv) = layer_mask iv
       \<and> solidLayer_opacity (ios_setMaskOpacity intensity iv) = 1 - intensity
       \<and> 1 \<le> solidLayer_opacity (ios_setMaskOpacity intensity iv)
       \<and> sourceOver (coerceIn 0 1 (solidLayer_opacity (ios_setMaskOpacity intensity iv))) g
           = 255"
proof -
  have a: "snd (dispatchDraw (setMaskOpacity intensity v)) = DrawChildren"
    using assms
    by (intro dispatchDraw_nonpos) (simp add: maskOpacity_setMaskOpacity coerceIn_nonpos)
  have b: "snd (legacy_dispatchDraw (legacy_setMaskOpacity intensity lv)) = DrawChildren"
    using assms
    by (intro legacy_dispatchDraw_nonpos) (simp add: legacy_setMaskOpacity_def coerceIn_nonpos)
  have c: "maskStyle cs ls dir intensity = None"
    using assms by (simp add: maskStyle_def)
  have d: "layer_mask (ios_setMaskOpacity intensity iv) = layer_mask iv"
    by (simp add: ios_setMaskOpacity_def)
  have e: "solidLayer_opacity (ios_setMaskOpacity intensity iv) = 1 - intensity"
    by (simp add: ios_setMaskOpacity_def updateMaskOpacity_def)
  have f: "1 \<le> solidLayer_opacity (ios_setMaskOpacity intensity iv)"
    using assms by (simp add: e)
  have g: "sourceOver (coerceIn 0 1 (solidLayer_opacity (ios_setMaskOpacity intensity iv))) g
             = 255"
    using assms by (simp add: e coerceIn_def sourceOver_def)
  from a b c d e f g show ?thesis by simp
qed

theorem C3_nonpositive_intensity_witness:
  "snd (dispatchDraw (setMaskOpacity 0 (fst (dispatchDraw exampleView)))) = DrawChildren
   \<and> snd (legacy_dispatchDraw (legacy_setMaskOpacity 0 exampleLegacyView)) = DrawChildren
   \<and> maskStyle [Some 0, Some 0xFF000000] [0, 1] (Some ''top'') 0 = None
   \<and> layer_mask (ios_setMaskOpacity 0 (ios_layoutSubviews newIosView))
       = layer_mask (ios_layoutSubviews newIosView)
   \<and> solidLayer_opacity (ios_setMaskOpacity 0 (ios_layoutSubviews newIosView)) = 1
   \<and> sourceOver
        (coerceIn 0 1 (solidLayer_opacity (ios_setMaskOpacity 0 (ios_layoutSubviews newIosView))))
        128 = 255"
proof -
  have zero: "(0 :: real) \<le> 0"
    by simp
  from C3_nonpositive_intensity
         [OF zero, of "fst (dispatchDraw exampleView)" exampleLegacyView
            "[Some 0, Some 0xFF000000]" "[0, 1]" "Some ''top''"
            "ios_layoutSubviews newIosView" 128]
  show ?thesis by (elim conjE, intro conjI) simp_all
qed

section \<open>The direction resolver\<close>

text \<open>
  Claim C5. The claim reads: top resolves to (w/2, 0) and (w/2, h), and in particular
  top on 10 by 20 resolves to (5, 0, 5, 20). The Android resolver anchors the axis at
  the left or top edge instead of the middle: top on 10 by 20 is (0, 0, 0, 20).
\<close>

theorem C5_android_top_is_edge_anchored:
  "getGradientCoordinates exampleView \<noteq> spec_resolve ''top'' 10 20
   \<and> spec_resolve ''top'' 10 20 = (5, 0, 5, 20)
   \<and> getGradientCoordinates exampleView = (0, 0, 0, 20)"
  by (simp add: getGradientCoordinates_def spec_resolve_def exampleView_state)

text \<open>
  Claim C5, as the code has it. On Android, bottom resolves to (0, h) and (0, 0), left
  to (0, 0) and (w, 0), right to (w, 0) and (0, 0), and top and every other direction
  to (0, 0) and (0, h); this axis gives every position the same normalised coordinate
  along the gradient as the claimed axis through the middle. On iOS the unit points of
  the gradient layer, taken on a layer of width w and height h, are the claimed
  coordinates, the top mapping being the default.
\<close>

theorem C5_direction_axes:
  "getGradientCoordinates v =
     (if direction v = ''bottom'' then (0, real_of_int (height v), 0, 0)
      else if direction v = ''left'' then (0, 0, real_of_int (width v), 0)
      else if direction v = ''right'' then (real_of_int (width v), 0, 0, 0)
      else (0, 0, 0, real_of_int (height v)))
   \<and> axisParam (getGradientCoordinates v) p
       = axisParam (spec_resolve (direction v) (real_of_int (width v)) (real_of_int (height v))) p
   \<and> unitToBounds w h (updateGradientDirection dir) = spec_resolve dir w h"
proof -
  have a: "getGradientCoordinates v =
     (if direction v = ''bottom'' then (0, real_of_int (height v), 0, 0)
      else if direction v = ''left'' then (0, 0, real_of_int (width v), 0)
      else if direction v = ''right'' then (real_of_int (width v), 0, 0, 0)
      else (0, 0, 0, real_of_int (height v)))"
    by (simp add: getGradientCoordinates_def)
  have b: "axisParam (getGradientCoordinates v) p
       = axisParam (spec_resolve (direction v) (real_of_int (width v)) (real_of_int (height v))) p"
    by (cases p) (simp add: getGradientCoordinates_def spec_resolve_def axisParam_def)
  have c: "unitToBounds w h (updateGradientDirection dir) = spec_resolve dir w h"
    by (simp add: unitToBounds_def updateGradientDirection_def spec_resolve_def)
  from a b c show ?thesis by simp
qed

theorem C5_direction_axes_witness:
  "unitToBounds 10 20 (updateGradientDirection ''top'') = (5, 0, 5, 20)
   \<and> unitToBounds 10 20 (updateGradientDirection ''left'') = (0, 10, 10, 10)
   \<and> unitToBounds 10 20 (updateGradientDirection ''diagonal'') = (5, 0, 5, 20)
   \<and> getGradientCoordinates (exampleView\<lparr>direction := ''left''\<rparr>) = (0, 0, 10, 0)"
proof -
  note top = C5_direction_axes [of exampleView "(0, 0)" 10 20 "''top''"]
  note left = C5_direction_axes [of "exampleView\<lparr>direction := ''left''\<rparr>" "(0, 0)" 10 20 "''left''"]
  note other = C5_direction_axes [of exampleView "(0, 0)" 10 20 "''diagonal''"]
  from top left other show ?thesis
    by (simp add: spec_resolve_def exampleView_state)
qed

section \<open>The gradient field builder\<close>




text \<open>
  On the web a single stop without a location gets the location \<^verbatim>\<open>0 / 0\<close>, which is
  \<^verbatim>\<open>NaN\<close>.
\<close>

lemma single_stop_web_location: "stopLocation 1 [] 0 = NaN"
  by (simp add: stopLocation_def js_div_def)

lemma buildGradientString_location:
  assumes "i < length cs"
  shows "snd (snd (buildGradientString cs ls dir) ! i) = stopLocation (length cs) ls i"
  using assms by (simp add: buildGradientString_def)

lemma buildGradientString_length: "length (snd (buildGradientString cs ls dir)) = length cs"
  by (simp add: buildGradientString_def)

text \<open>
  Claim C8. The claim reads: with fewer locations than stops the builder falls back to
  even spacing and the draw completes with that gradient, not with another degraded
  output. With two stops and the one location 0 the Android builder paints the bitmap
  white, the draw completes with the white bitmap as its mask, and no gradient over
  the locations 0 and 1 is built.
\<close>

theorem C8_android_short_locations_is_white:
  "baseMaskBitmap (fst (dispatchDraw shortLocationsView)) = Some (SolidWhite 10 10)
   \<and> snd (dispatchDraw shortLocationsView) = DrawMasked (SolidWhite 10 10) None
   \<and> baseMaskBitmap (fst (dispatchDraw shortLocationsView))
       \<noteq> Some (Gradient 10 10 (0, 0, 0, 10) [0x00FFFFFF, 0xFFFFFFFF] [0, 1])"
  by (simp add: dispatchDraw_def updateBaseMaskBitmap_def shortLocationsView_def
      mountedView_fields Let_def)

text \<open>
  Claim C8, as the code has it. On the web, with fewer locations than stops, the
  gradient has one stop per colour; a stop whose location is given keeps it, and, when
  there are at least two stops, a stop whose location is missing gets i / (n - 1) (both
  in per cent). On Android a locations list whose length differs from the number of
  stops gives the white bitmap (alpha 255 everywhere), and the next draw of a view
  whose bitmap is marked invalid completes with that bitmap: as its mask when the mask
  opacity is above 0 (through the colour matrix when it is below 1), and with no mask,
  the children drawn alone, when the mask opacity is 0.
\<close>

theorem C8_short_locations:
  assumes "length ls < length cs" and "i < length cs"
  shows "length (snd (buildGradientString cs ls dir)) = length cs
       \<and> (i < length ls \<longrightarrow>
            snd (snd (buildGradientString cs ls dir) ! i) = Num (ls ! i * 100))
       \<and> (length ls \<le> i \<and> 2 \<le> length cs \<longrightarrow>
            snd (snd (buildGradientString cs ls dir) ! i)
              = Num (real i / (real (length cs) - 1) * 100))
       \<and> (0 < width v \<and> 0 < height v \<and> colors v = Some ws \<and> locations v = Some ls
             \<and> length ls \<noteq> length ws \<longrightarrow>
            baseMaskBitmap (updateBaseMaskBitmap v) = Some (SolidWhite (width v) (height v)))
       \<and> (0 < width v \<and> 0 < height v \<and> colors v = Some ws \<and> locations v = Some ls
             \<and> length ls \<noteq> length ws \<and> baseBitmapInvalidated v \<longrightarrow>
            baseMaskBitmap (fst (dispatchDraw v)) = Some (SolidWhite (width v) (height v))
            \<and> snd (dispatchDraw v)
                = (if maskOpacity v \<le> 0 then DrawChildren
                   else DrawMasked (SolidWhite (width v) (height v))
                          (if maskOpacity v < 1 then Some (colorMatrixFor (maskOpacity v))
                           else None)))"
proof -
  have a: "i < length ls \<Longrightarrow>
      snd (snd (buildGradientString cs ls dir) ! i) = Num (ls ! i * 100)"
    using assms by (simp add: buildGradientString_location stopLocation_def)
  have b: "length ls \<le> i \<Longrightarrow> 2 \<le> length cs \<Longrightarrow>
      snd (snd (buildGradientString cs ls dir) ! i)
        = Num (real i / (real (length cs) - 1) * 100)"
    using assms by (simp add: buildGradientString_location stopLocation_def js_div_def of_nat_diff)
  have c: "0 < width v \<Longrightarrow> 0 < height v \<Longrightarrow> colors v = Some ws \<Longrightarrow> locations v = Some ls
        \<Longrightarrow> length ls \<noteq> length ws \<Longrightarrow>
      baseMaskBitmap (updateBaseMaskBitmap v) = Some (SolidWhite (width v) (height v))"
    by (auto simp add: updateBaseMaskBitmap_def Let_def)
  have d: "0 < width v \<Longrightarrow> 0 < height v \<Longrightarrow> colors v = Some ws \<Longrightarrow> locations v = Some ls
        \<Longrightarrow> length ls \<noteq> length ws \<Longrightarrow> baseBitmapInvalidated v \<Longrightarrow>
      baseMaskBitmap (fst (dispatchDraw v)) = Some (SolidWhite (width v) (height v))
      \<and> snd (dispatchDraw v)
          = (if maskOpacity v \<le> 0 then DrawChildren
             else DrawMasked (SolidWhite (width v) (height v))
                    (if maskOpacity v < 1 then Some (colorMatrixFor (maskOpacity v))
                     else None))"
    using c by (simp add: dispatchDraw_def Let_def updateBaseMaskBitmap_frame)
  from a b c d buildGradientString_length show ?thesis by simp
qed

theorem C8_short_locations_witness:
  "snd (snd (buildGradientString [Some 0, Some 0x80000000, Some 0xFF000000] [0] (Some ''top'')) ! 0)
     = Num 0
   \<and> snd (snd (buildGradientString [Some 0, Some 0x80000000, Some 0xFF000000] [0] (Some ''top'')) ! 1)
       = Num 50
   \<and> snd (snd (buildGradientString [Some 0, Some 0x80000000, Some 0xFF000000] [0] (Some ''top'')) ! 2)
       = Num 100
   \<and> baseMaskBitmap (updateBaseMaskBitmap shortLocationsView) = Some (SolidWhite 10 10)
   \<and> snd (dispatchDraw shortLocationsView) = DrawMasked (SolidWhite 10 10) None
   \<and> snd (dispatchDraw (setMaskOpacity (1 / 2) shortLocationsView))
       = DrawMasked (SolidWhite 10 10) (Some (colorMatrixFor (1 / 2)))
   \<and> snd (dispatchDraw (setMaskOpacity 0 shortLocationsView)) = DrawChildren"
proof -
  have len: "length [0 :: real] < length [Some 0, Some 0x80000000, Some (0xFF000000 :: int)]"
    by simp
  note t0 = C8_short_locations [OF len, of 0 "Some ''top''" shortLocationsView "[0, 0xFF000000]"]
  note t1 = C8_short_locations [OF len, of 1 "Some ''top''" shortLocationsView "[0, 0xFF000000]"]
  note t2 = C8_short_locations [OF len, of 2 "Some ''top''" shortLocationsView "[0, 0xFF000000]"]
  note th = C8_short_locations
              [OF len, of 0 "Some ''top''" "setMaskOpacity (1 / 2) shortLocationsView"
                 "[0, 0xFF000000]"]
  note tz = C8_short_locations
              [OF len, of 0 "Some ''top''" "setMaskOpacity 0 shortLocationsView"
                 "[0, 0xFF000000]"]
  have sv: "width shortLocationsView = 10" "height shortLocationsView = 10"
    "colors shortLocationsView = Some [0, 0xFF000000]" "locations shortLocationsView = Some [0]"
    "baseBitmapInvalidated shortLocationsView" "maskOpacity shortLocationsView = 1"
    by (simp_all add: shortLocationsView_def mountedView_fields)
  have so: "width (setMaskOpacity x shortLocationsView) = 10"
    "height (setMaskOpacity x shortLocationsView) = 10"
    "colors (setMaskOpacity x shortLocationsView) = Some [0, 0xFF000000]"
    "locations (setMaskOpacity x shortLocationsView) = Some [0]"
    "baseBitmapInvalidated (setMaskOpacity x shortLocationsView)"
    "maskOpacity (setMaskOpacity x shortLocationsView) = coerceIn 0 1 x" for x
    using sv by (simp_all add: setMaskOpacity_def Let_def)
  from t0 t1 t2 th tz show ?thesis
    by (simp add: sv so coerceIn_def)
qed

section \<open>Absent colours\<close>

text \<open>
  A null colour reads as transparent black, like the explicit value 0, and at the two
  ends of the intensity range (1 or more, 0 or less) the adjusted colours read the same
  whether an entry is null or 0.
\<close>

theorem null_reads_as_transparent_black:
  "colorToRgba None = (0, 0, 0, 0)
   \<and> colorToRgba None = colorToRgba (Some 0)
   \<and> map colorToRgba (adjustColorsForOpacity (None # cs) 1)
       = map colorToRgba (adjustColorsForOpacity (Some 0 # cs) 1)
   \<and> map colorToRgba (adjustColorsForOpacity (None # cs) 0)
       = map colorToRgba (adjustColorsForOpacity (Some 0 # cs) 0)"
  by (simp add: colorToRgba_def adjustColorsForOpacity_def toUint32_def channelA_def
      channelR_def channelG_def channelB_def)

text \<open>
  Claim C7. A null colour is treated as transparent black, and the blend gives for
  every intensity in [0, 1] the result it gives for the explicit value 0. The decoding
  does (above). The blend does not for an intensity strictly between 0 and 1: it returns
  a null entry as it is, so at intensity 1/2 the null stop stays null and reads as alpha
  0, while the explicit 0 becomes \<^verbatim>\<open>0x80000000\<close> and reads as alpha 128/255.
\<close>

theorem C7_null_stop_not_blended:
  "adjustColorsForOpacity [None, Some 0xFFFFFFFF] (1 / 2) = [None, Some 0xFFFFFFFF]
   \<and> adjustColorsForOpacity [Some 0, Some 0xFFFFFFFF] (1 / 2)
       = [Some 0x80000000, Some 0xFFFFFFFF]
   \<and> colorToRgba None = (0, 0, 0, 0)
   \<and> colorToRgba (Some 0x80000000) = (0, 0, 0, 128 / 255)"
  by (simp add: adjustColorsForOpacity_def adjustColor_def colorToRgba_def toUint32_def
      channelA_def channelR_def channelG_def channelB_def math_round_def mask_eq_exp_minus_1)

section \<open>The iOS composite mask and the Android colour matrix\<close>

text \<open>
  Claim C10. For every gradient alpha g and every mask opacity m in [0, 1], the iOS
  composite mask (the opaque solid layer at opacity 1 - m over the gradient layer) has
  the alpha g + (255 - g) * (1 - m); the alpha row of the Android colour matrix gives
  g * m + 255 * (1 - m); and the two are equal.
\<close>

theorem C10_ios_composite_equals_color_matrix:
  assumes "0 \<le> m" and "m \<le> 1"
  shows "compositeMaskAlpha g m = g + (255 - g) * (1 - m)
       \<and> colorMatrixAlpha (colorMatrixFor (coerceIn 0 1 m)) (g, r, gr, b)
           = g * m + 255 * (1 - m)
       \<and> compositeMaskAlpha g m
           = colorMatrixAlpha (colorMatrixFor (coerceIn 0 1 m)) (g, r, gr, b)"
  using assms
  by (simp add: compositeMaskAlpha_def sourceOver_def coerceIn_def updateMaskOpacity_def
      colorMatrixAlpha_def colorMatrixFor_def algebra_simps)

theorem C10_ios_composite_equals_color_matrix_witness:
  "compositeMaskAlpha 128 (1 / 2) = 383 / 2
   \<and> colorMatrixAlpha (colorMatrixFor (coerceIn 0 1 (1 / 2))) (128, 255, 255, 255) = 383 / 2"
proof -
  have "compositeMaskAlpha 128 (1 / 2) = 128 + (255 - 128) * (1 - 1 / 2)
       \<and> colorMatrixAlpha (colorMatrixFor (coerceIn 0 1 (1 / 2))) (128, 255, 255, 255)
           = 128 * (1 / 2) + 255 * (1 - 1 / 2)
       \<and> compositeMaskAlpha 128 (1 / 2)
           = colorMatrixAlpha (colorMatrixFor (coerceIn 0 1 (1 / 2))) (128, 255, 255, 255)"
    by (rule C10_ios_composite_equals_color_matrix) simp_all
  then show ?thesis by simp
qed

end
